theory Spec2Isabelle
  imports Main "HOL-Library.AList"
begin

section \<open>Slack webhook hook: token resolution, payload construction, execution\<close>

text \<open>
  A shallow embedding of \<^verbatim>\<open>airflow/providers/slack/hooks/slack_webhook.py\<close>
  (class \<^verbatim>\<open>SlackWebhookHook\<close>): the methods \<^verbatim>\<open>__init__\<close>,
  \<^verbatim>\<open>_get_token\<close>, \<^verbatim>\<open>_build_slack_message\<close> and \<^verbatim>\<open>execute\<close>.
  A leading underscore is not available for an Isabelle name, so \<^verbatim>\<open>_get_token\<close> is
  \<open>get_token\<close> and \<^verbatim>\<open>_build_slack_message\<close> is \<open>build_slack_message\<close>.
\<close>

subsection \<open>Python values\<close>

text \<open>
  The values that travel through the hook: the contents of a connection's
  \<^verbatim>\<open>extra_dejson\<close> dictionary, the attachments and blocks, and the dictionary handed
  to \<^verbatim>\<open>json.dumps\<close>. \<open>JNull\<close> is Python's \<^verbatim>\<open>None\<close>. A dictionary keeps its
  insertion order, so it is an association list. Floating point numbers are left out.
\<close>

datatype json =
    JNull
  | JBool bool
  | JInt int
  | JStr string
  | JList "json list"
  | JObj "(string \<times> json) list"

text \<open>Python's truth value test, as used by \<^verbatim>\<open>if x:\<close>.\<close>

fun truthy :: "json \<Rightarrow> bool" where
  "truthy JNull = False"
| "truthy (JBool b) = b"
| "truthy (JInt i) = (i \<noteq> 0)"
| "truthy (JStr s) = (s \<noteq> [])"
| "truthy (JList xs) = (xs \<noteq> [])"
| "truthy (JObj kvs) = (kvs \<noteq> [])"

text \<open>
  An optional string (\<^verbatim>\<open>str | None\<close>) or optional list parameter is an \<open>option\<close>.
  Both \<^verbatim>\<open>None\<close> and the empty string (the empty list) are false in \<^verbatim>\<open>if x:\<close>;
  \<open>nonempty x\<close> is \<open>Some v\<close> exactly when that test succeeds, with \<open>v\<close> the value.
\<close>

fun nonempty :: "'a list option \<Rightarrow> 'a list option" where
  "nonempty None = None"
| "nonempty (Some xs) = (if xs = [] then None else Some xs)"

text \<open>\<^verbatim>\<open>d.get(key, default)\<close> on a dictionary given as a map.\<close>

definition dict_get :: "(string \<rightharpoonup> json) \<Rightarrow> string \<Rightarrow> json \<Rightarrow> json" where
  "dict_get d k dflt = (case d k of None \<Rightarrow> dflt | Some v \<Rightarrow> v)"

subsection \<open>Serialisation: \<^verbatim>\<open>json.dumps\<close> with its default arguments\<close>

text \<open>
  \<^verbatim>\<open>json.dumps\<close> with \<^verbatim>\<open>ensure_ascii=True\<close> and the separators \<^verbatim>\<open>', '\<close> and
  \<^verbatim>\<open>': '\<close>. A character outside the printable ASCII range is written as a
  \<^verbatim>\<open>\u00XX\<close> escape (a \<open>char\<close> is a code point below 256 here).
\<close>

definition hex_digit :: "nat \<Rightarrow> char" where
  "hex_digit n = (if n < 10 then char_of (48 + n) else char_of (87 + n))"

definition escape_char :: "char \<Rightarrow> string" where
  "escape_char c =
     (if c = CHR 0x22 then [CHR 0x5C, CHR 0x22]
      else if c = CHR 0x5C then [CHR 0x5C, CHR 0x5C]
      else if c = CHR 0x0A then [CHR 0x5C, CHR ''n'']
      else if c = CHR 0x0D then [CHR 0x5C, CHR ''r'']
      else if c = CHR 0x09 then [CHR 0x5C, CHR ''t'']
      else if c = CHR 0x08 then [CHR 0x5C, CHR ''b'']
      else if c = CHR 0x0C then [CHR 0x5C, CHR ''f'']
      else if 32 \<le> (of_char c :: nat) \<and> (of_char c :: nat) \<le> 126 then [c]
      else [CHR 0x5C, CHR ''u'', CHR ''0'', CHR ''0'',
            hex_digit ((of_char c :: nat) div 16), hex_digit ((of_char c :: nat) mod 16)])"

definition dumps_str :: "string \<Rightarrow> string" where
  "dumps_str s = [CHR 0x22] @ concat (map escape_char s) @ [CHR 0x22]"

fun digits_of_nat :: "nat \<Rightarrow> string" where
  "digits_of_nat n =
     (if n < 10 then [char_of (48 + n)]
      else digits_of_nat (n div 10) @ [char_of (48 + n mod 10)])"

declare digits_of_nat.simps [simp del]

definition dumps_int :: "int \<Rightarrow> string" where
  "dumps_int i = (if i < 0 then CHR ''-'' # digits_of_nat (nat (- i)) else digits_of_nat (nat i))"

fun join :: "string \<Rightarrow> string list \<Rightarrow> string" where
  "join sep [] = []"
| "join sep [x] = x"
| "join sep (x # y # ys) = x @ sep @ join sep (y # ys)"

fun json_dumps :: "json \<Rightarrow> string" where
  "json_dumps JNull = ''null''"
| "json_dumps (JBool b) = (if b then ''true'' else ''false'')"
| "json_dumps (JInt i) = dumps_int i"
| "json_dumps (JStr s) = dumps_str s"
| "json_dumps (JList xs) = ''['' @ join '', '' (map json_dumps xs) @ '']''"
| "json_dumps (JObj kvs) =
     ''{'' @ join '', '' (map (\<lambda>kv. dumps_str (fst kv) @ '': '' @ json_dumps (snd kv)) kvs) @ ''}''"

subsection \<open>The collaborators: connections, warnings, the HTTP client\<close>

text \<open>
  \<^verbatim>\<open>get_connection\<close> and \<^verbatim>\<open>run\<close> are inherited from \<^verbatim>\<open>HttpHook\<close>; they are
  parameters of the model. A connection has a \<^verbatim>\<open>password\<close> (possibly \<^verbatim>\<open>None\<close>) and
  the dictionary \<^verbatim>\<open>extra_dejson\<close>. An exception is a value of type \<open>error\<close>:
  \<open>AirflowException\<close> is the one the hook raises itself, the others come from the
  collaborators and pass through unchanged.
\<close>

datatype error =
    AirflowException string
  | NotFoundError
  | TransportError
  | HttpStatusError

record connection =
  password :: "string option"
  extra_dejson :: "string \<rightharpoonup> json"

datatype warning_category = DeprecationWarning

record extra_options =
  proxies :: "(string \<times> string) list"
  check_response :: bool

record run_call =
  endpoint :: json
  data :: string
  headers :: "(string \<times> string) list"
  extra_options :: extra_options

text \<open>
  What a method does besides returning: the connection lookups, the warnings and the
  calls of \<^verbatim>\<open>run\<close>, in the order they happen. \<open>Warn m c l\<close> is
  \<^verbatim>\<open>warnings.warn(m, c, stacklevel=l)\<close>.
\<close>

datatype event =
    GetConnection string
  | Warn string warning_category nat
  | Run run_call

subsection \<open>The hook\<close>

record slack_webhook_hook =
  http_conn_id :: "string option"
  webhook_token :: json
  message :: string
  attachments :: "json list option"
  blocks :: "json list option"
  channel :: "string option"
  username :: "string option"
  icon_emoji :: "string option"
  icon_url :: "string option"
  link_names :: bool
  proxy :: "string option"

definition deprecation_message :: string where
  "deprecation_message =
     [CHR 0x27] @ ''webhook_token'' @ [CHR 0x27] @ '' in '' @ [CHR 0x27] @ ''extra'' @ [CHR 0x27] @
     '' is deprecated. Please use '' @ [CHR 0x27] @ ''password'' @ [CHR 0x27] @ '' field''"

text \<open>
  \<^verbatim>\<open>_get_token(self, token, http_conn_id)\<close>. The result is a Python value: the explicit
  token and the password are strings, the value found under \<^verbatim>\<open>'webhook_token'\<close> is
  whatever the connection's extra holds.
\<close>

definition get_token ::
  "(string \<Rightarrow> error + connection) \<Rightarrow> string option \<Rightarrow> string option \<Rightarrow> (error + json) \<times> event list"
where
  "get_token get_connection token conn_id =
     (case nonempty token of
        Some t \<Rightarrow> (Inr (JStr t), [])
      | None \<Rightarrow>
          (case nonempty conn_id of
             Some cid \<Rightarrow>
               (case get_connection cid of
                  Inl e \<Rightarrow> (Inl e, [GetConnection cid])
                | Inr conn \<Rightarrow>
                    (case nonempty (password conn) of
                       Some p \<Rightarrow> (Inr (JStr p), [GetConnection cid])
                     | None \<Rightarrow>
                         (let extra = extra_dejson conn;
                              web_token = dict_get extra ''webhook_token'' (JStr [])
                          in if truthy web_token
                             then (Inr web_token,
                                   [GetConnection cid, Warn deprecation_message DeprecationWarning 2])
                             else (Inr web_token, [GetConnection cid]))))
           | None \<Rightarrow>
               (Inl (AirflowException
                  ''Cannot get token: No valid Slack webhook token nor conn_id supplied''), [])))"

text \<open>
  Modelled from the spec: the constructor of \<^verbatim>\<open>HttpHook\<close>, which \<^verbatim>\<open>__init__\<close> calls
  first and which is not part of this file; the request object is created holding its
  configuration, so that call is taken to keep \<^verbatim>\<open>http_conn_id\<close> and to do nothing else.
  The rest is \<^verbatim>\<open>__init__\<close> as written: the token is resolved at once, the other
  arguments are stored, and an exception of \<^verbatim>\<open>_get_token\<close> leaves no hook.
\<close>

definition init ::
  "(string \<Rightarrow> error + connection) \<Rightarrow> string option \<Rightarrow> string option \<Rightarrow> string \<Rightarrow>
   json list option \<Rightarrow> json list option \<Rightarrow> string option \<Rightarrow> string option \<Rightarrow>
   string option \<Rightarrow> string option \<Rightarrow> bool \<Rightarrow> string option \<Rightarrow>
   (error + slack_webhook_hook) \<times> event list"
where
  "init get_connection conn_id token msg atts blks chan user emoji url links prx =
     (case get_token get_connection token conn_id of
        (Inl e, evs) \<Rightarrow> (Inl e, evs)
      | (Inr t, evs) \<Rightarrow>
          (Inr \<lparr>http_conn_id = conn_id, webhook_token = t, message = msg,
                attachments = atts, blocks = blks, channel = chan, username = user,
                icon_emoji = emoji, icon_url = url, link_names = links, proxy = prx\<rparr>,
           evs))"

text \<open>
  \<^verbatim>\<open>_build_slack_message\<close>. \<open>slack_message_dict\<close> is the dictionary \<^verbatim>\<open>cmd\<close> as it
  stands when \<^verbatim>\<open>json.dumps\<close> is called; \<open>AList.update\<close> is \<^verbatim>\<open>cmd[k] = v\<close>.
\<close>

definition slack_message_dict :: "slack_webhook_hook \<Rightarrow> (string \<times> json) list" where
  "slack_message_dict h =
     (let cmd = [];
          cmd = (case nonempty (channel h) of
                   Some c \<Rightarrow> AList.update ''channel'' (JStr c) cmd | None \<Rightarrow> cmd);
          cmd = (case nonempty (username h) of
                   Some u \<Rightarrow> AList.update ''username'' (JStr u) cmd | None \<Rightarrow> cmd);
          cmd = (case nonempty (icon_emoji h) of
                   Some e \<Rightarrow> AList.update ''icon_emoji'' (JStr e) cmd | None \<Rightarrow> cmd);
          cmd = (case nonempty (icon_url h) of
                   Some u \<Rightarrow> AList.update ''icon_url'' (JStr u) cmd | None \<Rightarrow> cmd);
          cmd = (if link_names h then AList.update ''link_names'' (JInt 1) cmd else cmd);
          cmd = (case nonempty (attachments h) of
                   Some a \<Rightarrow> AList.update ''attachments'' (JList a) cmd | None \<Rightarrow> cmd);
          cmd = (case nonempty (blocks h) of
                   Some b \<Rightarrow> AList.update ''blocks'' (JList b) cmd | None \<Rightarrow> cmd);
          cmd = AList.update ''text'' (JStr (message h)) cmd
      in cmd)"

definition build_slack_message :: "slack_webhook_hook \<Rightarrow> string" where
  "build_slack_message h = json_dumps (JObj (slack_message_dict h))"

text \<open>
  \<^verbatim>\<open>execute\<close>: one call of \<^verbatim>\<open>run\<close>, whose exception (if any) is the exception of
  \<^verbatim>\<open>execute\<close>.
\<close>

definition execute ::
  "(run_call \<Rightarrow> error option) \<Rightarrow> slack_webhook_hook \<Rightarrow> (error + unit) \<times> event list"
where
  "execute run h =
     (let prox = (case nonempty (proxy h) of Some p \<Rightarrow> [(''https'', p)] | None \<Rightarrow> []);
          slack_message = build_slack_message h;
          call = \<lparr>endpoint = webhook_token h, data = slack_message,
                  headers = [(''Content-type'', ''application/json'')],
                  extra_options = \<lparr>proxies = prox, check_response = True\<rparr>\<rparr>
      in (case run call of None \<Rightarrow> Inr () | Some e \<Rightarrow> Inl e, [Run call]))"

subsection \<open>Example configurations\<close>

text \<open>
  A small connection store: a connection with a password (and a leftover token in its
  extra), one with the token only in its extra, one that holds no token at all, one whose
  extra binds \<^verbatim>\<open>'webhook_token'\<close> to \<^verbatim>\<open>null\<close>; every other name is unknown. \<open>run_ok\<close> is an HTTP client whose request succeeds.
\<close>

definition example_connections :: "string \<Rightarrow> error + connection" where
  "example_connections cid =
     (if cid = ''slack_default'' then
        Inr \<lparr>password = Some ''T000/B000/XXXX'',
             extra_dejson = [''webhook_token'' \<mapsto> JStr ''T999/B999/OLD'']\<rparr>
      else if cid = ''slack_legacy'' then
        Inr \<lparr>password = None, extra_dejson = [''webhook_token'' \<mapsto> JStr ''T111/B111/YYYY'']\<rparr>
      else if cid = ''slack_empty'' then
        Inr \<lparr>password = Some [], extra_dejson = Map.empty\<rparr>
      else if cid = ''slack_null'' then
        Inr \<lparr>password = None, extra_dejson = [''webhook_token'' \<mapsto> JNull]\<rparr>
      else Inl NotFoundError)"

definition run_ok :: "run_call \<Rightarrow> error option" where
  "run_ok call = None"

definition example_hook :: slack_webhook_hook where
  "example_hook =
     \<lparr>http_conn_id = None, webhook_token = JStr ''T000/B000/XXXX'', message = ''hello'',
      attachments = None, blocks = None, channel = Some ''#general'', username = None,
      icon_emoji = None, icon_url = None, link_names = True, proxy = Some ''http://p:8080''\<rparr>"

definition plain_hook :: slack_webhook_hook where
  "plain_hook =
     \<lparr>http_conn_id = None, webhook_token = JStr ''T000/B000/XXXX'', message = ''hello'',
      attachments = None, blocks = None, channel = None, username = None,
      icon_emoji = None, icon_url = None, link_names = False, proxy = None\<rparr>"

definition all_empty_hook :: slack_webhook_hook where
  "all_empty_hook =
     \<lparr>http_conn_id = None, webhook_token = JStr ''T000/B000/XXXX'', message = ''hello'',
      attachments = None, blocks = None, channel = Some [], username = Some [],
      icon_emoji = Some [], icon_url = Some [], link_names = False, proxy = None\<rparr>"

text \<open>The calls of \<^verbatim>\<open>run\<close> among the events, and whether an event is a warning.\<close>

fun run_calls :: "event list \<Rightarrow> run_call list" where
  "run_calls [] = []"
| "run_calls (Run c # es) = c # run_calls es"
| "run_calls (e # es) = run_calls es"

fun is_warn :: "event \<Rightarrow> bool" where
  "is_warn (Warn m c l) = True"
| "is_warn e = False"

section \<open>Properties\<close>

subsection \<open>Python's truth test on optional values\<close>

lemma nonempty_SomeD: "nonempty x = Some v \<Longrightarrow> x = Some v \<and> v \<noteq> []"
  by (cases x) (auto split: if_splits)

lemma nonempty_None_iff: "nonempty x = None \<longleftrightarrow> x = None \<or> x = Some []"
  by (cases x) auto

subsection \<open>Conditional dictionary updates\<close>

lemma keys_cond_update:
  "fst ` set (case x of Some v \<Rightarrow> AList.update k (f v) d | None \<Rightarrow> d) =
     (if x = None then {} else {k}) \<union> fst ` set d"
  by (cases x) (simp_all add: AList.dom_update)

lemma keys_if_update:
  "fst ` set (if b then AList.update k v d else d) = (if b then {k} else {}) \<union> fst ` set d"
  by (simp add: AList.dom_update)

lemma distinct_cond_update:
  "distinct (map fst d) \<Longrightarrow>
   distinct (map fst (case x of Some v \<Rightarrow> AList.update k (f v) d | None \<Rightarrow> d))"
  by (cases x) (simp_all add: AList.distinct_update)

lemma distinct_if_update:
  "distinct (map fst d) \<Longrightarrow> distinct (map fst (if b then AList.update k v d else d))"
  by (simp add: AList.distinct_update)

lemma lookup_cond_update:
  "map_of (case x of Some v \<Rightarrow> AList.update k (f v) d | None \<Rightarrow> d) k' =
     (if k' = k then (case x of Some v \<Rightarrow> Some (f v) | None \<Rightarrow> map_of d k) else map_of d k')"
  by (cases x) (simp_all add: AList.update_conv')

lemma lookup_if_update:
  "map_of (if b then AList.update k v d else d) k' =
     (if k' = k \<and> b then Some v else map_of d k')"
  by (simp add: AList.update_conv')

lemma lookup_update:
  "map_of (AList.update k v d) k' = (if k' = k then Some v else map_of d k')"
  by (simp add: AList.update_conv')

lemmas lookups = lookup_cond_update lookup_if_update lookup_update

subsection \<open>The payload dictionary\<close>

lemma slack_message_dict_keys:
  "fst ` set (slack_message_dict h) =
     {''text''}
     \<union> (if nonempty (channel h) = None then {} else {''channel''})
     \<union> (if nonempty (username h) = None then {} else {''username''})
     \<union> (if nonempty (icon_emoji h) = None then {} else {''icon_emoji''})
     \<union> (if nonempty (icon_url h) = None then {} else {''icon_url''})
     \<union> (if link_names h then {''link_names''} else {})
     \<union> (if nonempty (attachments h) = None then {} else {''attachments''})
     \<union> (if nonempty (blocks h) = None then {} else {''blocks''})"
  unfolding slack_message_dict_def Let_def
  apply (simp only: AList.dom_update keys_cond_update keys_if_update)
  apply (simp only: list.set image_empty Un_empty_right)
  by blast

lemma slack_message_dict_distinct: "distinct (map fst (slack_message_dict h))"
  unfolding slack_message_dict_def Let_def
  by (intro AList.distinct_update distinct_cond_update distinct_if_update) simp

lemma lookup_text: "map_of (slack_message_dict h) ''text'' = Some (JStr (message h))"
  unfolding slack_message_dict_def Let_def by (simp add: lookup_update)

lemma lookup_channel:
  "map_of (slack_message_dict h) ''channel'' = map_option JStr (nonempty (channel h))"
  unfolding slack_message_dict_def Let_def by (simp add: lookups split: option.splits)

lemma lookup_username:
  "map_of (slack_message_dict h) ''username'' = map_option JStr (nonempty (username h))"
  unfolding slack_message_dict_def Let_def by (simp add: lookups split: option.splits)

lemma lookup_icon_emoji:
  "map_of (slack_message_dict h) ''icon_emoji'' = map_option JStr (nonempty (icon_emoji h))"
  unfolding slack_message_dict_def Let_def by (simp add: lookups split: option.splits)

lemma lookup_icon_url:
  "map_of (slack_message_dict h) ''icon_url'' = map_option JStr (nonempty (icon_url h))"
  unfolding slack_message_dict_def Let_def by (simp add: lookups split: option.splits)

lemma lookup_link_names:
  "map_of (slack_message_dict h) ''link_names'' = (if link_names h then Some (JInt 1) else None)"
  unfolding slack_message_dict_def Let_def by (simp add: lookups split: option.splits)

lemma lookup_attachments:
  "map_of (slack_message_dict h) ''attachments'' = map_option JList (nonempty (attachments h))"
  unfolding slack_message_dict_def Let_def by (simp add: lookups split: option.splits)

lemma lookup_blocks:
  "map_of (slack_message_dict h) ''blocks'' = map_option JList (nonempty (blocks h))"
  unfolding slack_message_dict_def Let_def by (simp add: lookups split: option.splits)

lemma slack_message_dict_only_text:
  assumes "nonempty (channel h) = None" and "nonempty (username h) = None"
    and "nonempty (icon_emoji h) = None" and "nonempty (icon_url h) = None"
    and "\<not> link_names h" and "nonempty (attachments h) = None" and "nonempty (blocks h) = None"
  shows "slack_message_dict h = [(''text'', JStr (message h))]"
  using assms unfolding slack_message_dict_def Let_def by simp

text \<open>
  The dictionary depends on an optional field only through \<open>nonempty\<close>: two hooks that
  agree on the message, on \<^verbatim>\<open>link_names\<close> and on \<open>nonempty\<close> of every optional field
  build the same dictionary.
\<close>

lemma slack_message_dict_cong:
  assumes "message h = message h'" and "link_names h = link_names h'"
    and "nonempty (channel h) = nonempty (channel h')"
    and "nonempty (username h) = nonempty (username h')"
    and "nonempty (icon_emoji h) = nonempty (icon_emoji h')"
    and "nonempty (icon_url h) = nonempty (icon_url h')"
    and "nonempty (attachments h) = nonempty (attachments h')"
    and "nonempty (blocks h) = nonempty (blocks h')"
  shows "slack_message_dict h = slack_message_dict h'"
  unfolding slack_message_dict_def by (simp only: assms)

lemma execute_events:
  "snd (execute run h) =
     [Run \<lparr>endpoint = webhook_token h, data = build_slack_message h,
           headers = [(''Content-type'', ''application/json'')],
           extra_options =
             \<lparr>proxies = (case nonempty (proxy h) of Some p \<Rightarrow> [(''https'', p)] | None \<Rightarrow> []),
              check_response = True\<rparr>\<rparr>]"
  by (simp add: execute_def Let_def)

text \<open>
  The serialisation at work, on a hook with message \<^verbatim>\<open>hello\<close>, channel
  \<^verbatim>\<open>#general\<close> and \<^verbatim>\<open>link_names\<close> set; \<open>CHR 0x22\<close> is the double quote.
\<close>

lemma build_slack_message_example:
  "build_slack_message example_hook =
     ''{'' @ [CHR 0x22] @ ''channel'' @ [CHR 0x22] @ '': '' @ [CHR 0x22] @ ''#general'' @ [CHR 0x22]
     @ '', '' @ [CHR 0x22] @ ''link_names'' @ [CHR 0x22] @ '': 1''
     @ '', '' @ [CHR 0x22] @ ''text'' @ [CHR 0x22] @ '': '' @ [CHR 0x22] @ ''hello'' @ [CHR 0x22] @ ''}''"
  by code_simp

subsection \<open>Token resolution\<close>

text \<open>
  C1: For every non-empty explicit webhook token, token resolution (\<^verbatim>\<open>_get_token\<close>)
  returns exactly that token, whether or not a connection name is supplied as well
  (\<open>conn_id\<close> and the connection store are arbitrary).
\<close>

theorem explicit_token_returned:
  "token \<noteq> [] \<Longrightarrow> fst (get_token get_connection (Some token) conn_id) = Inr (JStr token)"
  by (simp add: get_token_def)

theorem explicit_token_returned_witness:
  "fst (get_token example_connections (Some ''T000/B000/XXXX'') (Some ''slack_legacy''))
     = Inr (JStr ''T000/B000/XXXX'')
   \<and> fst (get_token example_connections (Some ''T000/B000/XXXX'') None)
     = Inr (JStr ''T000/B000/XXXX'')"
  using explicit_token_returned [of "''T000/B000/XXXX''" example_connections "Some ''slack_legacy''"]
    explicit_token_returned [of "''T000/B000/XXXX''" example_connections None]
  by simp

text \<open>
  C3: If the explicit token is empty or absent and the connection name is empty or absent,
  token resolution raises \<^verbatim>\<open>AirflowException\<close> (the configuration error); no event
  has happened by then: no connection lookup and no call of the HTTP client.
\<close>

theorem no_token_no_connection_raises:
  assumes "token = None \<or> token = Some []" and "conn_id = None \<or> conn_id = Some []"
  shows "get_token get_connection token conn_id =
           (Inl (AirflowException
              ''Cannot get token: No valid Slack webhook token nor conn_id supplied''), [])"
  using assms by (auto simp add: get_token_def)

theorem no_token_no_connection_raises_witness:
  "get_token example_connections None (Some []) =
     (Inl (AirflowException
        ''Cannot get token: No valid Slack webhook token nor conn_id supplied''), [])
   \<and> get_token example_connections (Some []) None =
     (Inl (AirflowException
        ''Cannot get token: No valid Slack webhook token nor conn_id supplied''), [])"
  using no_token_no_connection_raises [of None "Some []" example_connections]
    no_token_no_connection_raises [of "Some []" None example_connections]
  by simp




text \<open>
  C5: For every connection whose password is non-empty, token resolution returns that
  password, whatever the connection's extra holds (\<open>conn\<close> is arbitrary but for its
  password); the only event is the lookup, so no deprecation warning is emitted.
\<close>

theorem connection_password_returned:
  assumes "token = None \<or> token = Some []" and "cid \<noteq> []"
    and "get_connection cid = Inr conn"
    and "password conn = Some p" and "p \<noteq> []"
  shows "get_token get_connection token (Some cid) = (Inr (JStr p), [GetConnection cid])"
  using assms by (auto simp add: get_token_def)

theorem connection_password_returned_witness:
  "example_connections ''slack_default'' =
     Inr \<lparr>password = Some ''T000/B000/XXXX'',
          extra_dejson = [''webhook_token'' \<mapsto> JStr ''T999/B999/OLD'']\<rparr>
   \<and> get_token example_connections None (Some ''slack_default'') =
       (Inr (JStr ''T000/B000/XXXX''), [GetConnection ''slack_default''])"
  using connection_password_returned [of None "''slack_default''" example_connections
      "\<lparr>password = Some ''T000/B000/XXXX'',
        extra_dejson = [''webhook_token'' \<mapsto> JStr ''T999/B999/OLD'']\<rparr>" "''T000/B000/XXXX''"]
  by (simp add: example_connections_def)

text \<open>
  C6: For every connection with an empty or absent password whose extra holds a non-empty
  value \<open>x\<close> under \<^verbatim>\<open>'webhook_token'\<close> (a non-empty string, or any other value that
  passes the truth test), token resolution returns \<open>x\<close> and emits the deprecation warning
  (which advises the password field) exactly once.
\<close>

theorem extra_token_returned_with_warning:
  assumes "token = None \<or> token = Some []" and "cid \<noteq> []"
    and "get_connection cid = Inr conn"
    and "password conn = None \<or> password conn = Some []"
    and "extra_dejson conn ''webhook_token'' = Some x" and "truthy x"
  shows "get_token get_connection token (Some cid) =
           (Inr x, [GetConnection cid, Warn deprecation_message DeprecationWarning 2])
         \<and> length (filter is_warn (snd (get_token get_connection token (Some cid)))) = 1"
  using assms by (auto simp add: get_token_def dict_get_def)

theorem extra_token_returned_with_warning_witness:
  "example_connections ''slack_legacy'' =
     Inr \<lparr>password = None, extra_dejson = [''webhook_token'' \<mapsto> JStr ''T111/B111/YYYY'']\<rparr>
   \<and> get_token example_connections None (Some ''slack_legacy'') =
       (Inr (JStr ''T111/B111/YYYY''),
        [GetConnection ''slack_legacy'', Warn deprecation_message DeprecationWarning 2])
   \<and> length (filter is_warn (snd (get_token example_connections None (Some ''slack_legacy'')))) = 1"
  using extra_token_returned_with_warning [of None "''slack_legacy''" example_connections
      "\<lparr>password = None, extra_dejson = [''webhook_token'' \<mapsto> JStr ''T111/B111/YYYY'']\<rparr>"
      "JStr ''T111/B111/YYYY''"]
  by (simp add: example_connections_def)

text \<open>
  C10: Whenever a non-empty explicit token is supplied, token resolution performs no
  connection lookup: it produces no event, its result does not depend on the connection
  store, and it cannot raise \<^verbatim>\<open>NotFoundError\<close>, also when the connection name supplied
  is unknown to the store.
\<close>

theorem explicit_token_no_lookup:
  assumes "token \<noteq> []"
  shows "snd (get_token get_connection (Some token) conn_id) = []
         \<and> fst (get_token get_connection (Some token) conn_id) \<noteq> Inl NotFoundError
         \<and> get_token get_connection (Some token) conn_id =
             get_token get_connection' (Some token) conn_id"
  using assms by (simp add: get_token_def)

theorem explicit_token_no_lookup_witness:
  "example_connections ''no_such_connection'' = Inl NotFoundError
   \<and> snd (get_token example_connections (Some ''T000/B000/XXXX'') (Some ''no_such_connection'')) = []
   \<and> fst (get_token example_connections (Some ''T000/B000/XXXX'') (Some ''no_such_connection''))
       \<noteq> Inl NotFoundError
   \<and> fst (get_token example_connections None (Some ''no_such_connection'')) = Inl NotFoundError"
  using explicit_token_no_lookup [of "''T000/B000/XXXX''" example_connections
      "Some ''no_such_connection''" example_connections]
  by (simp add: example_connections_def get_token_def)

subsection \<open>Payload construction\<close>

text \<open>
  C2: The payload built by \<^verbatim>\<open>_build_slack_message\<close> is the serialisation of a JSON
  object with distinct keys whose key set is exactly \<^verbatim>\<open>'text'\<close> (always present, bound to
  the message, which may be empty) together with the optional keys whose field passes
  Python's truth test: \<^verbatim>\<open>'channel'\<close>, \<^verbatim>\<open>'username'\<close>, \<^verbatim>\<open>'icon_emoji'\<close> and
  \<^verbatim>\<open>'icon_url'\<close> bound to their strings, \<^verbatim>\<open>'link_names'\<close> bound to the integer 1
  when \<^verbatim>\<open>link_names\<close> is true and absent when it is false, \<^verbatim>\<open>'attachments'\<close> and
  \<^verbatim>\<open>'blocks'\<close> bound to their lists when these are non-empty. With every optional field
  unset the payload is the serialisation of the object with the single key \<^verbatim>\<open>'text'\<close>.
\<close>

theorem payload_key_set:
  "build_slack_message h = json_dumps (JObj (slack_message_dict h))
   \<and> distinct (map fst (slack_message_dict h))
   \<and> fst ` set (slack_message_dict h) =
       {''text''}
       \<union> (if nonempty (channel h) = None then {} else {''channel''})
       \<union> (if nonempty (username h) = None then {} else {''username''})
       \<union> (if nonempty (icon_emoji h) = None then {} else {''icon_emoji''})
       \<union> (if nonempty (icon_url h) = None then {} else {''icon_url''})
       \<union> (if link_names h then {''link_names''} else {})
       \<union> (if nonempty (attachments h) = None then {} else {''attachments''})
       \<union> (if nonempty (blocks h) = None then {} else {''blocks''})
   \<and> map_of (slack_message_dict h) ''text'' = Some (JStr (message h))
   \<and> map_of (slack_message_dict h) ''channel'' = map_option JStr (nonempty (channel h))
   \<and> map_of (slack_message_dict h) ''username'' = map_option JStr (nonempty (username h))
   \<and> map_of (slack_message_dict h) ''icon_emoji'' = map_option JStr (nonempty (icon_emoji h))
   \<and> map_of (slack_message_dict h) ''icon_url'' = map_option JStr (nonempty (icon_url h))
   \<and> map_of (slack_message_dict h) ''link_names'' = (if link_names h then Some (JInt 1) else None)
   \<and> map_of (slack_message_dict h) ''attachments'' = map_option JList (nonempty (attachments h))
   \<and> map_of (slack_message_dict h) ''blocks'' = map_option JList (nonempty (blocks h))
   \<and> (nonempty (channel h) = None \<and> nonempty (username h) = None
        \<and> nonempty (icon_emoji h) = None \<and> nonempty (icon_url h) = None
        \<and> \<not> link_names h \<and> nonempty (attachments h) = None \<and> nonempty (blocks h) = None
       \<longrightarrow> build_slack_message h = json_dumps (JObj [(''text'', JStr (message h))]))"
  by (simp only: build_slack_message_def slack_message_dict_distinct slack_message_dict_keys
      lookup_text lookup_channel lookup_username lookup_icon_emoji lookup_icon_url
      lookup_link_names lookup_attachments lookup_blocks simp_thms)
    (simp add: slack_message_dict_only_text)

theorem payload_key_set_witness:
  "build_slack_message plain_hook = json_dumps (JObj [(''text'', JStr ''hello'')])
   \<and> slack_message_dict example_hook =
       [(''channel'', JStr ''#general''), (''link_names'', JInt 1), (''text'', JStr ''hello'')]
   \<and> fst ` set (slack_message_dict example_hook) = {''text'', ''channel'', ''link_names''}
   \<and> map_of (slack_message_dict example_hook) ''link_names'' = Some (JInt 1)
   \<and> map_of (slack_message_dict plain_hook) ''link_names'' = None"
  using payload_key_set [of plain_hook] payload_key_set [of example_hook]
  by (auto simp add: plain_hook_def example_hook_def slack_message_dict_def)

text \<open>
  C9: When \<^verbatim>\<open>channel\<close>, \<^verbatim>\<open>username\<close>, \<^verbatim>\<open>icon_emoji\<close> or \<^verbatim>\<open>icon_url\<close> is the empty
  string, the payload has no such key and is the very payload built with that field unset
  (\<^verbatim>\<open>None\<close>).
\<close>

theorem empty_string_field_omitted:
  "(channel h = Some [] \<longrightarrow>
      build_slack_message h = build_slack_message (h\<lparr>channel := None\<rparr>)
      \<and> ''channel'' \<notin> fst ` set (slack_message_dict h))
   \<and> (username h = Some [] \<longrightarrow>
      build_slack_message h = build_slack_message (h\<lparr>username := None\<rparr>)
      \<and> ''username'' \<notin> fst ` set (slack_message_dict h))
   \<and> (icon_emoji h = Some [] \<longrightarrow>
      build_slack_message h = build_slack_message (h\<lparr>icon_emoji := None\<rparr>)
      \<and> ''icon_emoji'' \<notin> fst ` set (slack_message_dict h))
   \<and> (icon_url h = Some [] \<longrightarrow>
      build_slack_message h = build_slack_message (h\<lparr>icon_url := None\<rparr>)
      \<and> ''icon_url'' \<notin> fst ` set (slack_message_dict h))"
proof -
  have "slack_message_dict h = slack_message_dict (h\<lparr>channel := None\<rparr>)" if "channel h = Some []"
    by (rule slack_message_dict_cong) (simp_all add: that)
  moreover
  have "slack_message_dict h = slack_message_dict (h\<lparr>username := None\<rparr>)" if "username h = Some []"
    by (rule slack_message_dict_cong) (simp_all add: that)
  moreover
  have "slack_message_dict h = slack_message_dict (h\<lparr>icon_emoji := None\<rparr>)" if "icon_emoji h = Some []"
    by (rule slack_message_dict_cong) (simp_all add: that)
  moreover
  have "slack_message_dict h = slack_message_dict (h\<lparr>icon_url := None\<rparr>)" if "icon_url h = Some []"
    by (rule slack_message_dict_cong) (simp_all add: that)
  ultimately show ?thesis
    by (simp add: build_slack_message_def slack_message_dict_keys)
qed

theorem empty_string_field_omitted_witness:
  "build_slack_message all_empty_hook = build_slack_message (all_empty_hook\<lparr>channel := None\<rparr>)
   \<and> build_slack_message all_empty_hook = build_slack_message (all_empty_hook\<lparr>username := None\<rparr>)
   \<and> build_slack_message all_empty_hook = build_slack_message (all_empty_hook\<lparr>icon_emoji := None\<rparr>)
   \<and> build_slack_message all_empty_hook = build_slack_message (all_empty_hook\<lparr>icon_url := None\<rparr>)
   \<and> slack_message_dict all_empty_hook = [(''text'', JStr ''hello'')]"
proof -
  have fields: "channel all_empty_hook = Some [] \<and> username all_empty_hook = Some []
      \<and> icon_emoji all_empty_hook = Some [] \<and> icon_url all_empty_hook = Some []"
    by (simp add: all_empty_hook_def)
  have dict: "slack_message_dict all_empty_hook = [(''text'', JStr ''hello'')]"
    by (simp add: all_empty_hook_def slack_message_dict_def)
  from fields dict empty_string_field_omitted [of all_empty_hook] show ?thesis
    by blast
qed

subsection \<open>Execution\<close>

text \<open>
  C7: With a proxy configured (a non-empty string), \<^verbatim>\<open>execute\<close> calls the HTTP client
  once, with a proxies mapping that holds the single key \<^verbatim>\<open>'https'\<close> bound to the proxy;
  with no proxy (absent or the empty string) the proxies mapping is empty; in no call is
  there a key \<^verbatim>\<open>'http'\<close>.
\<close>

theorem execute_proxies:
  "(proxy h = Some p \<and> p \<noteq> [] \<longrightarrow>
      snd (execute run h) =
        [Run \<lparr>endpoint = webhook_token h, data = build_slack_message h,
              headers = [(''Content-type'', ''application/json'')],
              extra_options = \<lparr>proxies = [(''https'', p)], check_response = True\<rparr>\<rparr>])
   \<and> (proxy h = None \<or> proxy h = Some [] \<longrightarrow>
      snd (execute run h) =
        [Run \<lparr>endpoint = webhook_token h, data = build_slack_message h,
              headers = [(''Content-type'', ''application/json'')],
              extra_options = \<lparr>proxies = [], check_response = True\<rparr>\<rparr>])
   \<and> (\<forall>c \<in> set (run_calls (snd (execute run h))).
         ''http'' \<notin> fst ` set (proxies (extra_options c)))"
  by (auto simp add: execute_events split: option.splits if_splits)

theorem execute_proxies_witness:
  "snd (execute run_ok example_hook) =
     [Run \<lparr>endpoint = JStr ''T000/B000/XXXX'', data = build_slack_message example_hook,
           headers = [(''Content-type'', ''application/json'')],
           extra_options = \<lparr>proxies = [(''https'', ''http://p:8080'')], check_response = True\<rparr>\<rparr>]
   \<and> snd (execute run_ok plain_hook) =
     [Run \<lparr>endpoint = JStr ''T000/B000/XXXX'', data = build_slack_message plain_hook,
           headers = [(''Content-type'', ''application/json'')],
           extra_options = \<lparr>proxies = [], check_response = True\<rparr>\<rparr>]
   \<and> ''http'' \<notin> fst ` set (proxies (extra_options (hd (run_calls (snd (execute run_ok example_hook))))))"
  using execute_proxies [of example_hook "''http://p:8080''" run_ok]
    execute_proxies [of plain_hook "[]" run_ok]
  by (simp add: example_hook_def plain_hook_def)

text \<open>
  C8 (as the spec has it: the resolved token is non-empty before a send, so \<^verbatim>\<open>execute\<close>
  never issues the POST with an empty stored token) fails: for the connection
  \<^verbatim>\<open>slack_empty\<close>, with an empty password and nothing in its extra, the constructor
  succeeds and stores the empty string, and \<^verbatim>\<open>execute\<close> calls the HTTP client with the
  empty string as endpoint.
\<close>

theorem empty_token_posted_counterexample:
  "init example_connections (Some ''slack_empty'') None ''hello'' None None None None None None False None =
     (Inr \<lparr>http_conn_id = Some ''slack_empty'', webhook_token = JStr [], message = ''hello'',
           attachments = None, blocks = None, channel = None, username = None,
           icon_emoji = None, icon_url = None, link_names = False, proxy = None\<rparr>,
      [GetConnection ''slack_empty''])
   \<and> execute run_ok
        \<lparr>http_conn_id = Some ''slack_empty'', webhook_token = JStr [], message = ''hello'',
         attachments = None, blocks = None, channel = None, username = None,
         icon_emoji = None, icon_url = None, link_names = False, proxy = None\<rparr> =
     (Inr (),
      [Run \<lparr>endpoint = JStr [], data = json_dumps (JObj [(''text'', JStr ''hello'')]),
            headers = [(''Content-type'', ''application/json'')],
            extra_options = \<lparr>proxies = [], check_response = True\<rparr>\<rparr>])"
  by (simp add: init_def get_token_def example_connections_def dict_get_def execute_def
      run_ok_def build_slack_message_def slack_message_dict_def)

text \<open>
  C8, amended: \<^verbatim>\<open>execute\<close> makes no check of the stored token: it issues exactly one
  POST, whose endpoint is the stored token as it is. The constructor stores the explicit
  token when that is non-empty; otherwise the password of the connection looked up when
  that is non-empty; otherwise the value under \<^verbatim>\<open>'webhook_token'\<close> in the connection's
  extra when that value is true (with the deprecation warning): in these three cases the
  stored token is non-empty. Otherwise, when the lookup succeeds, the constructor succeeds
  all the same and stores the false value found under \<^verbatim>\<open>'webhook_token'\<close>: the empty
  string when the key is absent or bound to the empty string, else the value bound to it
  (\<^verbatim>\<open>null\<close>, \<^verbatim>\<open>false\<close>, \<^verbatim>\<open>0\<close>, an empty list or object); \<^verbatim>\<open>execute\<close> then
  issues the POST with that value as endpoint.
\<close>

theorem execute_posts_stored_token:
  "snd (execute run h) =
     [Run \<lparr>endpoint = webhook_token h, data = build_slack_message h,
           headers = [(''Content-type'', ''application/json'')],
           extra_options =
             \<lparr>proxies = (case nonempty (proxy h) of Some p \<Rightarrow> [(''https'', p)] | None \<Rightarrow> []),
              check_response = True\<rparr>\<rparr>]
   \<and> (token = Some t \<and> t \<noteq> [] \<longrightarrow>
        init get_connection conn_id token msg atts blks chan user emoji url links prx =
          (Inr \<lparr>http_conn_id = conn_id, webhook_token = JStr t, message = msg,
                attachments = atts, blocks = blks, channel = chan, username = user,
                icon_emoji = emoji, icon_url = url, link_names = links, proxy = prx\<rparr>, [])
        \<and> truthy (JStr t))
   \<and> ((token = None \<or> token = Some []) \<and> conn_id = Some cid \<and> cid \<noteq> []
        \<and> get_connection cid = Inr conn \<and> password conn = Some p \<and> p \<noteq> [] \<longrightarrow>
        init get_connection conn_id token msg atts blks chan user emoji url links prx =
          (Inr \<lparr>http_conn_id = conn_id, webhook_token = JStr p, message = msg,
                attachments = atts, blocks = blks, channel = chan, username = user,
                icon_emoji = emoji, icon_url = url, link_names = links, proxy = prx\<rparr>,
           [GetConnection cid])
        \<and> truthy (JStr p))
   \<and> ((token = None \<or> token = Some []) \<and> conn_id = Some cid \<and> cid \<noteq> []
        \<and> get_connection cid = Inr conn \<and> (password conn = None \<or> password conn = Some [])
        \<and> extra_dejson conn ''webhook_token'' = Some v \<and> truthy v \<longrightarrow>
        init get_connection conn_id token msg atts blks chan user emoji url links prx =
          (Inr \<lparr>http_conn_id = conn_id, webhook_token = v, message = msg,
                attachments = atts, blocks = blks, channel = chan, username = user,
                icon_emoji = emoji, icon_url = url, link_names = links, proxy = prx\<rparr>,
           [GetConnection cid, Warn deprecation_message DeprecationWarning 2]))
   \<and> ((token = None \<or> token = Some []) \<and> conn_id = Some cid \<and> cid \<noteq> []
        \<and> get_connection cid = Inr conn \<and> (password conn = None \<or> password conn = Some [])
        \<and> (extra_dejson conn ''webhook_token'' = None
             \<or> extra_dejson conn ''webhook_token'' = Some (JStr [])) \<longrightarrow>
        init get_connection conn_id token msg atts blks chan user emoji url links prx =
          (Inr \<lparr>http_conn_id = conn_id, webhook_token = JStr [], message = msg,
                attachments = atts, blocks = blks, channel = chan, username = user,
                icon_emoji = emoji, icon_url = url, link_names = links, proxy = prx\<rparr>,
           [GetConnection cid])
        \<and> map endpoint (run_calls (snd (execute run
              \<lparr>http_conn_id = conn_id, webhook_token = JStr [], message = msg,
               attachments = atts, blocks = blks, channel = chan, username = user,
               icon_emoji = emoji, icon_url = url, link_names = links, proxy = prx\<rparr>))) = [JStr []])
   \<and> ((token = None \<or> token = Some []) \<and> conn_id = Some cid \<and> cid \<noteq> []
        \<and> get_connection cid = Inr conn \<and> (password conn = None \<or> password conn = Some [])
        \<and> extra_dejson conn ''webhook_token'' = Some v \<and> \<not> truthy v \<longrightarrow>
        init get_connection conn_id token msg atts blks chan user emoji url links prx =
          (Inr \<lparr>http_conn_id = conn_id, webhook_token = v, message = msg,
                attachments = atts, blocks = blks, channel = chan, username = user,
                icon_emoji = emoji, icon_url = url, link_names = links, proxy = prx\<rparr>,
           [GetConnection cid])
        \<and> map endpoint (run_calls (snd (execute run
              \<lparr>http_conn_id = conn_id, webhook_token = v, message = msg,
               attachments = atts, blocks = blks, channel = chan, username = user,
               icon_emoji = emoji, icon_url = url, link_names = links, proxy = prx\<rparr>))) = [v])"
proof -
  have posts: "map endpoint (run_calls (snd (execute run k))) = [webhook_token k]" for k
    by (simp add: execute_events)
  show ?thesis
    by (auto simp add: execute_events posts init_def get_token_def dict_get_def)
qed

theorem execute_posts_stored_token_witness:
  "init example_connections (Some ''slack_empty'') None ''hello''
        None None None None None None False None =
     (Inr \<lparr>http_conn_id = Some ''slack_empty'', webhook_token = JStr [], message = ''hello'',
           attachments = None, blocks = None, channel = None, username = None,
           icon_emoji = None, icon_url = None, link_names = False, proxy = None\<rparr>,
      [GetConnection ''slack_empty''])
   \<and> map endpoint (run_calls (snd (execute run_ok
        \<lparr>http_conn_id = Some ''slack_empty'', webhook_token = JStr [], message = ''hello'',
         attachments = None, blocks = None, channel = None, username = None,
         icon_emoji = None, icon_url = None, link_names = False, proxy = None\<rparr>))) = [JStr []]
   \<and> init example_connections (Some ''slack_null'') None ''hello''
        None None None None None None False None =
     (Inr \<lparr>http_conn_id = Some ''slack_null'', webhook_token = JNull, message = ''hello'',
           attachments = None, blocks = None, channel = None, username = None,
           icon_emoji = None, icon_url = None, link_names = False, proxy = None\<rparr>,
      [GetConnection ''slack_null''])
   \<and> map endpoint (run_calls (snd (execute run_ok
        \<lparr>http_conn_id = Some ''slack_null'', webhook_token = JNull, message = ''hello'',
         attachments = None, blocks = None, channel = None, username = None,
         icon_emoji = None, icon_url = None, link_names = False, proxy = None\<rparr>))) = [JNull]
   \<and> fst (init example_connections (Some ''slack_default'') None ''hello''
        None None None None None None False None) =
     Inr \<lparr>http_conn_id = Some ''slack_default'', webhook_token = JStr ''T000/B000/XXXX'',
           message = ''hello'', attachments = None, blocks = None, channel = None, username = None,
           icon_emoji = None, icon_url = None, link_names = False, proxy = None\<rparr>
   \<and> fst (init example_connections (Some ''slack_legacy'') None ''hello''
        None None None None None None False None) =
     Inr \<lparr>http_conn_id = Some ''slack_legacy'', webhook_token = JStr ''T111/B111/YYYY'',
           message = ''hello'', attachments = None, blocks = None, channel = None, username = None,
           icon_emoji = None, icon_url = None, link_names = False, proxy = None\<rparr>
   \<and> fst (init example_connections None (Some ''T000/B000/XXXX'') ''hello''
        None None None None None None False None) =
     Inr \<lparr>http_conn_id = None, webhook_token = JStr ''T000/B000/XXXX'',
           message = ''hello'', attachments = None, blocks = None, channel = None, username = None,
           icon_emoji = None, icon_url = None, link_names = False, proxy = None\<rparr>"
proof -
  have empty: "example_connections ''slack_empty'' =
      Inr \<lparr>password = Some [], extra_dejson = Map.empty\<rparr>"
    by (simp add: example_connections_def)
  have null: "example_connections ''slack_null'' =
      Inr \<lparr>password = None, extra_dejson = [''webhook_token'' \<mapsto> JNull]\<rparr>"
    by (simp add: example_connections_def)
  have dflt: "example_connections ''slack_default'' =
      Inr \<lparr>password = Some ''T000/B000/XXXX'',
           extra_dejson = [''webhook_token'' \<mapsto> JStr ''T999/B999/OLD'']\<rparr>"
    by (simp add: example_connections_def)
  have legacy: "example_connections ''slack_legacy'' =
      Inr \<lparr>password = None, extra_dejson = [''webhook_token'' \<mapsto> JStr ''T111/B111/YYYY'']\<rparr>"
    by (simp add: example_connections_def)
  show ?thesis
    using
      execute_posts_stored_token [where get_connection = example_connections
        and conn_id = "Some ''slack_empty''" and cid = "''slack_empty''" and token = None
        and conn = "\<lparr>password = Some [], extra_dejson = Map.empty\<rparr>"
        and msg = "''hello''" and atts = None and blks = None and chan = None and user = None
        and emoji = None and url = None and links = False and prx = None and run = run_ok]
      execute_posts_stored_token [where get_connection = example_connections
        and conn_id = "Some ''slack_null''" and cid = "''slack_null''" and token = None
        and conn = "\<lparr>password = None, extra_dejson = [''webhook_token'' \<mapsto> JNull]\<rparr>"
        and v = JNull
        and msg = "''hello''" and atts = None and blks = None and chan = None and user = None
        and emoji = None and url = None and links = False and prx = None and run = run_ok]
      execute_posts_stored_token [where get_connection = example_connections
        and conn_id = "Some ''slack_default''" and cid = "''slack_default''" and token = None
        and conn = "\<lparr>password = Some ''T000/B000/XXXX'',
           extra_dejson = [''webhook_token'' \<mapsto> JStr ''T999/B999/OLD'']\<rparr>"
        and p = "''T000/B000/XXXX''"
        and msg = "''hello''" and atts = None and blks = None and chan = None and user = None
        and emoji = None and url = None and links = False and prx = None]
      execute_posts_stored_token [where get_connection = example_connections
        and conn_id = "Some ''slack_legacy''" and cid = "''slack_legacy''" and token = None
        and conn = "\<lparr>password = None,
           extra_dejson = [''webhook_token'' \<mapsto> JStr ''T111/B111/YYYY'']\<rparr>"
        and v = "JStr ''T111/B111/YYYY''"
        and msg = "''hello''" and atts = None and blks = None and chan = None and user = None
        and emoji = None and url = None and links = False and prx = None]
      execute_posts_stored_token [where get_connection = example_connections
        and conn_id = None and token = "Some ''T000/B000/XXXX''" and t = "''T000/B000/XXXX''"
        and msg = "''hello''" and atts = None and blks = None and chan = None and user = None
        and emoji = None and url = None and links = False and prx = None]
    by (simp add: empty null dflt legacy)
qed

end
